theory Spec2Isabelle
  imports Main
begin

section \<open>The runtime that \<open>cares_wrap.ts\<close> runs on\<close>

text \<open>
  \<open>node/internal_binding/cares_wrap.ts\<close> answers DNS requests of Node's \<open>dns\<close> module
  with \<open>Deno.resolveDns\<close>. Every entry point returns at once and reports later through
  the request's \<open>oncomplete\<close> handler. The record types are the string literals that the
  file passes to \<open>Deno.resolveDns\<close>.
\<close>

datatype record_type = RecA | RecAAAA | RecCNAME | RecMX | RecPTR | RecSRV | RecTXT

text \<open>
  A promise of the resolver settles in one of two ways. A rejection is told apart only
  by \<open>e instanceof Deno.errors.NotFound\<close>.
\<close>

datatype failure = NotFound | OtherFailure

datatype 'a settled = Fulfilled 'a | Rejected failure

text \<open>The records a settled lookup contributes: none when it was rejected.\<close>

fun fulfilled :: "'a list settled \<Rightarrow> 'a list" where
  "fulfilled (Fulfilled records) = records"
| "fulfilled (Rejected e) = []"

text \<open>
  \<open>Deno.resolveDns(name, recordType)\<close>: what the promise for a name and a record type
  settles with. For \<open>"A"\<close> and \<open>"AAAA"\<close> the declared result is \<open>string[]\<close>.
\<close>

type_synonym 'r resolveDns = "string \<Rightarrow> record_type \<Rightarrow> 'r list settled"

text \<open>
  The imports whose modules are not part of this file are parameters: \<open>isWindows\<close>
  (\<open>_util/os.ts\<close>), \<open>isIPv4\<close> (\<open>internal/net.ts\<close>) and the two entries of \<open>codeMap\<close>
  (\<open>uv.ts\<close>) that the file looks up.
\<close>

record env =
  isWindows :: bool
  isIPv4 :: "string \<Rightarrow> bool"
  EAI_NODATA :: int
  UNKNOWN :: int

text \<open>
  The effects of one call: what it returns or throws synchronously, the resolver lookups
  it started, and the calls of \<open>req.oncomplete\<close> made once the resolver promises have
  settled in the order of the schedule.
\<close>

datatype js_error = NotImplemented string

record 'r outcome =
  returned :: "js_error + int"
  dispatched :: "record_type list"
  oncomplete :: "(int \<times> 'r list) list"

text \<open>
  A schedule lists record types in the order in which their lookups settle. A lookup that
  is not pending (never started, or settled already) ignores the event.
\<close>

type_synonym schedule = "record_type list"

text \<open>\<open>records.forEach((record) => addresses.push(record))\<close>\<close>

definition push_all :: "'a list \<Rightarrow> 'a list \<Rightarrow> 'a list" where
  "push_all addresses records = foldl (\<lambda>acc record. acc @ [record]) addresses records"

section \<open>\<open>Array.prototype.sort\<close> with a comparator\<close>

text \<open>
  Deno runs on V8, whose \<open>Array.prototype.sort\<close> (\<open>third_party/v8/builtins/array-sort.tq\<close>)
  is TimSort. An array of fewer than 64 elements is one run: \<open>CountAndMakeRun\<close> measures
  the run the array starts with, reversing it when it is strictly descending, and
  \<open>BinaryInsertionSort\<close> places every later element by binary search in the sorted prefix.
  Longer arrays are cut into several such runs that are merged afterwards. The
  definitions below are the algorithm for a single run: on 64 elements and more they
  give the elements of V8's result, not necessarily in V8's order.
\<close>

fun run_rest :: "('a \<Rightarrow> 'a \<Rightarrow> int) \<Rightarrow> bool \<Rightarrow> 'a \<Rightarrow> 'a list \<Rightarrow> nat" where
  "run_rest comparefn isDescending previousElement [] = 0"
| "run_rest comparefn isDescending previousElement (currentElement # rest) =
     (let order = comparefn currentElement previousElement in
      if isDescending then
        (if order \<ge> 0 then 0 else Suc (run_rest comparefn isDescending currentElement rest))
      else
        (if order < 0 then 0 else Suc (run_rest comparefn isDescending currentElement rest)))"

fun CountAndMakeRun :: "('a \<Rightarrow> 'a \<Rightarrow> int) \<Rightarrow> 'a list \<Rightarrow> nat \<times> 'a list" where
  "CountAndMakeRun comparefn [] = (0, [])"
| "CountAndMakeRun comparefn [x] = (1, [x])"
| "CountAndMakeRun comparefn (elementHigh # elementLow # rest) =
     (let isDescending = comparefn elementLow elementHigh < 0;
          runLength = 2 + run_rest comparefn isDescending elementLow rest;
          workArray = elementHigh # elementLow # rest
      in (runLength,
          if isDescending then rev (take runLength workArray) @ drop runLength workArray
          else workArray))"

function bsearch :: "('a \<Rightarrow> 'a \<Rightarrow> int) \<Rightarrow> 'a \<Rightarrow> 'a list \<Rightarrow> nat \<Rightarrow> nat \<Rightarrow> nat" where
  "bsearch comparefn pivot workArray left right =
     (if left < right then
        (let mid = left + (right - left) div 2 in
         if comparefn pivot (workArray ! mid) < 0
         then bsearch comparefn pivot workArray left mid
         else bsearch comparefn pivot workArray (mid + 1) right)
      else left)"
  by pat_completeness auto
termination
  by (relation "measure (\<lambda>(comparefn, pivot, workArray, left, right). right - left)") auto

declare bsearch.simps [simp del]

text \<open>
  \<open>BinaryInsertionSort\<close>: the sorted prefix grows by one element at a time; the pivot
  goes to the index the binary search stops at, the elements from there on move one
  place to the right.
\<close>

fun BinaryInsertionSort :: "('a \<Rightarrow> 'a \<Rightarrow> int) \<Rightarrow> 'a list \<Rightarrow> 'a list \<Rightarrow> 'a list" where
  "BinaryInsertionSort comparefn run [] = run"
| "BinaryInsertionSort comparefn run (pivot # rest) =
     (let left = bsearch comparefn pivot run 0 (length run) in
      BinaryInsertionSort comparefn (take left run @ pivot # drop left run) rest)"

definition array_sort :: "('a \<Rightarrow> 'a \<Rightarrow> int) \<Rightarrow> 'a list \<Rightarrow> 'a list" where
  "array_sort comparefn workArray =
     (if length workArray < 2 then workArray
      else (case CountAndMakeRun comparefn workArray of
              (runLength, madeRun) \<Rightarrow>
                BinaryInsertionSort comparefn (take runLength madeRun) (drop runLength madeRun)))"

section \<open>\<open>getaddrinfo\<close>\<close>

text \<open>The record types pushed for a family: lines 70 to 77.\<close>

definition recordTypes :: "int \<Rightarrow> record_type list" where
  "recordTypes family =
     (if family = 0 \<or> family = 4 then [RecA] else []) @
     (if family = 0 \<or> family = 6 then [RecAAAA] else [])"

text \<open>
  One resolver promise settles: its \<open>then\<close> callback pushes the records it was fulfilled
  with onto the shared \<open>addresses\<close>; a rejection pushes nothing.
\<close>

fun settle_lookup ::
  "string resolveDns \<Rightarrow> string \<Rightarrow> record_type list \<times> string list \<Rightarrow> record_type \<Rightarrow>
   record_type list \<times> string list" where
  "settle_lookup dns hostname (pending, addresses) recordType =
     (if recordType \<in> set pending then
        (removeAll recordType pending,
         (case dns hostname recordType of
            Fulfilled records \<Rightarrow> push_all addresses records
          | Rejected e \<Rightarrow> addresses))
      else (pending, addresses))"

text \<open>The state after the schedule has run: the lookups still pending and \<open>addresses\<close>.\<close>

definition allSettled ::
  "string resolveDns \<Rightarrow> schedule \<Rightarrow> string \<Rightarrow> int \<Rightarrow> record_type list \<times> string list" where
  "allSettled dns sched hostname family =
     foldl (settle_lookup dns hostname) (recordTypes family, []) sched"

text \<open>The comparator of lines 93 to 101.\<close>

definition compareAddresses :: "env \<Rightarrow> string \<Rightarrow> string \<Rightarrow> int" where
  "compareAddresses env a b =
     (if isIPv4 env a then - 1 else if isIPv4 env b then 1 else 0)"

text \<open>
  Lines 88 to 111, run once every lookup has settled: the error is computed from the
  merged addresses, then the addresses are sorted unless \<open>verbatim\<close>, then filtered on
  Windows for \<open>localhost\<close>; the result is the argument pair of \<open>req.oncomplete\<close>.
\<close>

definition complete :: "env \<Rightarrow> string \<Rightarrow> bool \<Rightarrow> string list \<Rightarrow> int \<times> string list" where
  "complete env hostname verbatim addresses =
     (let error = (if addresses \<noteq> [] then 0 else EAI_NODATA env);
          ordered = (if \<not> verbatim then array_sort (compareAddresses env) addresses
                     else addresses);
          kept = (if isWindows env \<and> hostname = ''localhost''
                  then filter (isIPv4 env) ordered else ordered)
      in (error, kept))"

definition getaddrinfo ::
  "env \<Rightarrow> string resolveDns \<Rightarrow> schedule \<Rightarrow> string \<Rightarrow> int \<Rightarrow> int \<Rightarrow> bool \<Rightarrow> string outcome" where
  "getaddrinfo env dns sched hostname family hints verbatim =
     (case allSettled dns sched hostname family of
        (pending, addresses) \<Rightarrow>
          \<lparr> returned = Inr 0,
            dispatched = recordTypes family,
            oncomplete = (if pending = [] then [complete env hostname verbatim addresses]
                          else []) \<rparr>)"

section \<open>\<open>ChannelWrap\<close>\<close>

text \<open>
  The elements that the declared result of \<open>Deno.resolveDns\<close> allows: a string, an
  \<open>MXRecord\<close> (\<open>preference\<close>, \<open>exchange\<close>), an \<open>SRVRecord\<close> (\<open>priority\<close>, \<open>weight\<close>, \<open>port\<close>,
  \<open>target\<close>), or the \<open>string[]\<close> of a TXT record.
\<close>

datatype native =
    NStr string
  | NMX nat string
  | NSRV nat nat nat string
  | NTXT "string list"

text \<open>The values handed to \<open>req.oncomplete\<close>; an object literal lists its properties.\<close>

datatype jsval =
    Undefined
  | Num nat
  | Str string
  | Arr "jsval list"
  | Obj "(string \<times> jsval) list"

fun js :: "native \<Rightarrow> jsval" where
  "js (NStr s) = Str s"
| "js (NMX preference exchange) =
     Obj [(''preference'', Num preference), (''exchange'', Str exchange)]"
| "js (NSRV priority weight port target) =
     Obj [(''priority'', Num priority), (''weight'', Num weight), (''port'', Num port),
          (''target'', Str target)]"
| "js (NTXT entries) = Arr (map Str entries)"

text \<open>
  Destructuring \<open>({ preference, exchange })\<close> reads properties; on a value that has no
  such property (a string, an array, a record of another shape) the read is \<open>undefined\<close>.
\<close>

definition field :: "native \<Rightarrow> string \<Rightarrow> jsval" where
  "field record key =
     (case js record of
        Obj properties \<Rightarrow> (case map_of properties key of Some v \<Rightarrow> v | None \<Rightarrow> Undefined)
      | _ \<Rightarrow> Undefined)"

text \<open>\<open>#query\<close>, lines 169 to 187: the promise it returns and what that settles with.\<close>

definition query ::
  "env \<Rightarrow> native resolveDns \<Rightarrow> string \<Rightarrow> record_type \<Rightarrow> (int \<times> native list) settled" where
  "query env dns name recordType =
     (case dns name recordType of
        Fulfilled ret \<Rightarrow> Fulfilled (0, ret)
      | Rejected e \<Rightarrow>
          (if e = NotFound then Fulfilled (EAI_NODATA env, [])
           else Fulfilled (UNKNOWN env, [])))"

text \<open>
  \<open>this.#query(name, recordType).then(callback)\<close> where the callback ends in
  \<open>req.oncomplete\<close>: the call is made once the lookup has settled, that is, once the
  schedule has named its record type; a rejected \<open>#query\<close> would skip the callback.
\<close>

definition then_oncomplete ::
  "env \<Rightarrow> native resolveDns \<Rightarrow> schedule \<Rightarrow> string \<Rightarrow> record_type \<Rightarrow>
   (native list \<Rightarrow> jsval list) \<Rightarrow> (int \<times> jsval list) list" where
  "then_oncomplete env dns sched name recordType shape =
     (if recordType \<in> set sched then
        (case query env dns name recordType of
           Fulfilled (code, ret) \<Rightarrow> [(code, shape ret)]
         | Rejected e \<Rightarrow> [])
      else [])"

definition queryA :: "env \<Rightarrow> native resolveDns \<Rightarrow> schedule \<Rightarrow> string \<Rightarrow> jsval outcome" where
  "queryA env dns sched name =
     \<lparr> returned = Inr 0, dispatched = [RecA],
       oncomplete = then_oncomplete env dns sched name RecA (map js) \<rparr>"

definition queryAaaa :: "env \<Rightarrow> native resolveDns \<Rightarrow> schedule \<Rightarrow> string \<Rightarrow> jsval outcome" where
  "queryAaaa env dns sched name =
     \<lparr> returned = Inr 0, dispatched = [RecAAAA],
       oncomplete = then_oncomplete env dns sched name RecAAAA (map js) \<rparr>"

definition queryCname :: "env \<Rightarrow> native resolveDns \<Rightarrow> schedule \<Rightarrow> string \<Rightarrow> jsval outcome" where
  "queryCname env dns sched name =
     \<lparr> returned = Inr 0, dispatched = [RecCNAME],
       oncomplete = then_oncomplete env dns sched name RecCNAME (map js) \<rparr>"

text \<open>Lines 277 to 282: \<open>({ preference, exchange }) => ({ priority: preference, exchange })\<close>\<close>

definition mxRecord :: "native \<Rightarrow> jsval" where
  "mxRecord record =
     Obj [(''priority'', field record ''preference''),
          (''exchange'', field record ''exchange'')]"

definition queryMx :: "env \<Rightarrow> native resolveDns \<Rightarrow> schedule \<Rightarrow> string \<Rightarrow> jsval outcome" where
  "queryMx env dns sched name =
     \<lparr> returned = Inr 0, dispatched = [RecMX],
       oncomplete = then_oncomplete env dns sched name RecMX (map mxRecord) \<rparr>"

definition queryTxt :: "env \<Rightarrow> native resolveDns \<Rightarrow> schedule \<Rightarrow> string \<Rightarrow> jsval outcome" where
  "queryTxt env dns sched name =
     \<lparr> returned = Inr 0, dispatched = [RecTXT],
       oncomplete = then_oncomplete env dns sched name RecTXT (map js) \<rparr>"

text \<open>
  Lines 307 to 314:
  \<open>({ priority, weight, port, target }) => ({ priority, weight, port, name: target })\<close>
\<close>

definition srvRecord :: "native \<Rightarrow> jsval" where
  "srvRecord record =
     Obj [(''priority'', field record ''priority''),
          (''weight'', field record ''weight''),
          (''port'', field record ''port''),
          (''name'', field record ''target'')]"

definition querySrv :: "env \<Rightarrow> native resolveDns \<Rightarrow> schedule \<Rightarrow> string \<Rightarrow> jsval outcome" where
  "querySrv env dns sched name =
     \<lparr> returned = Inr 0, dispatched = [RecSRV],
       oncomplete = then_oncomplete env dns sched name RecSRV (map srvRecord) \<rparr>"

definition queryPtr :: "env \<Rightarrow> native resolveDns \<Rightarrow> schedule \<Rightarrow> string \<Rightarrow> jsval outcome" where
  "queryPtr env dns sched name =
     \<lparr> returned = Inr 0, dispatched = [RecPTR],
       oncomplete = then_oncomplete env dns sched name RecPTR (map js) \<rparr>"

subsection \<open>\<open>queryAny\<close>\<close>

text \<open>The object that each of the seven \<open>then\<close> callbacks pushes for one record.\<close>

fun anyRecord :: "record_type \<Rightarrow> native \<Rightarrow> jsval" where
  "anyRecord RecA record = Obj [(''type'', Str ''A''), (''address'', js record)]"
| "anyRecord RecAAAA record = Obj [(''type'', Str ''AAAA''), (''address'', js record)]"
| "anyRecord RecCNAME record = Obj [(''type'', Str ''CNAME''), (''value'', js record)]"
| "anyRecord RecMX record =
     Obj [(''type'', Str ''MX''), (''priority'', field record ''preference''),
          (''exchange'', field record ''exchange'')]"
| "anyRecord RecPTR record = Obj [(''type'', Str ''PTR''), (''value'', js record)]"
| "anyRecord RecSRV record =
     Obj [(''type'', Str ''SRV''), (''priority'', field record ''priority''),
          (''weight'', field record ''weight''), (''port'', field record ''port''),
          (''name'', field record ''target'')]"
| "anyRecord RecTXT record = Obj [(''type'', Str ''TXT''), (''entries'', js record)]"

text \<open>The fan-out of lines 198 to 237, in the order of the array literal.\<close>

definition anyTypes :: "record_type list" where
  "anyTypes = [RecA, RecAAAA, RecCNAME, RecMX, RecPTR, RecSRV, RecTXT]"

fun settle_query ::
  "env \<Rightarrow> native resolveDns \<Rightarrow> string \<Rightarrow> record_type list \<times> jsval list \<Rightarrow> record_type \<Rightarrow>
   record_type list \<times> jsval list" where
  "settle_query env dns name (pending, records) recordType =
     (if recordType \<in> set pending then
        (removeAll recordType pending,
         (case query env dns name recordType of
            Fulfilled (code, ret) \<Rightarrow> push_all records (map (anyRecord recordType) ret)
          | Rejected e \<Rightarrow> records))
      else (pending, records))"

definition anySettled ::
  "env \<Rightarrow> native resolveDns \<Rightarrow> schedule \<Rightarrow> string \<Rightarrow> record_type list \<times> jsval list" where
  "anySettled env dns sched name = foldl (settle_query env dns name) (anyTypes, []) sched"

definition queryAny :: "env \<Rightarrow> native resolveDns \<Rightarrow> schedule \<Rightarrow> string \<Rightarrow> jsval outcome" where
  "queryAny env dns sched name =
     (case anySettled env dns sched name of
        (pending, records) \<Rightarrow>
          \<lparr> returned = Inr 0,
            dispatched = anyTypes,
            oncomplete =
              (if pending = [] then [(if records \<noteq> [] then 0 else EAI_NODATA env, records)]
               else []) \<rparr>)"

subsection \<open>Operations that are not implemented\<close>

text \<open>
  Modelled from the spec: \<open>notImplemented\<close> of \<open>_utils.ts\<close> is not among the sources.
  The spec has an unsupported operation fail immediately and synchronously, not via the
  asynchronous completion path; the methods that call it declare the result \<open>number\<close>
  and have no \<open>return\<close>, so the helper never returns.
\<close>

definition notImplemented :: "string \<Rightarrow> 'r outcome" where
  "notImplemented msg =
     \<lparr> returned = Inl (NotImplemented msg), dispatched = [], oncomplete = [] \<rparr>"

definition queryCaa :: "env \<Rightarrow> native resolveDns \<Rightarrow> schedule \<Rightarrow> string \<Rightarrow> jsval outcome" where
  "queryCaa env dns sched name = notImplemented ''cares.ChannelWrap.prototype.queryCaa''"

definition queryNs :: "env \<Rightarrow> native resolveDns \<Rightarrow> schedule \<Rightarrow> string \<Rightarrow> jsval outcome" where
  "queryNs env dns sched name = notImplemented ''cares.ChannelWrap.prototype.queryNs''"

definition queryNaptr :: "env \<Rightarrow> native resolveDns \<Rightarrow> schedule \<Rightarrow> string \<Rightarrow> jsval outcome" where
  "queryNaptr env dns sched name = notImplemented ''cares.ChannelWrap.prototype.queryNaptr''"

definition querySoa :: "env \<Rightarrow> native resolveDns \<Rightarrow> schedule \<Rightarrow> string \<Rightarrow> jsval outcome" where
  "querySoa env dns sched name = notImplemented ''cares.ChannelWrap.prototype.querySoa''"

definition getHostByAddr :: "env \<Rightarrow> native resolveDns \<Rightarrow> schedule \<Rightarrow> string \<Rightarrow> jsval outcome" where
  "getHostByAddr env dns sched name =
     notImplemented ''cares.ChannelWrap.prototype.getHostByAddr''"

section \<open>Concrete runtimes and resolvers\<close>

text \<open>
  For runs on concrete inputs the parameter \<open>isIPv4\<close> is the recogniser of dotted-quad
  literals: four decimal segments between 0 and 255, none with a leading zero.
\<close>

fun segments :: "string \<Rightarrow> string list" where
  "segments [] = [[]]"
| "segments (c # cs) =
     (if c = CHR ''.'' then [] # segments cs
      else (c # hd (segments cs)) # tl (segments cs))"

definition digit :: "char \<Rightarrow> bool" where
  "digit c = ((48::nat) \<le> of_char c \<and> (of_char c :: nat) \<le> 57)"

definition decimal :: "string \<Rightarrow> nat" where
  "decimal s = foldl (\<lambda>n c. 10 * n + (of_char c - 48)) 0 s"

definition v4Seg :: "string \<Rightarrow> bool" where
  "v4Seg s =
     (s \<noteq> [] \<and> length s \<le> 3 \<and> list_all digit s \<and>
      (length s = 1 \<or> hd s \<noteq> CHR ''0'') \<and> decimal s \<le> 255)"

definition dottedQuad :: "string \<Rightarrow> bool" where
  "dottedQuad ip = (length (segments ip) = 4 \<and> list_all v4Seg (segments ip))"

text \<open>\<open>codeMap\<close> of \<open>uv.ts\<close> has \<open>EAI_NODATA\<close> at -3007 and \<open>UNKNOWN\<close> at -4094.\<close>

definition linux :: env where
  "linux = \<lparr> isWindows = False, isIPv4 = dottedQuad, EAI_NODATA = - 3007, UNKNOWN = - 4094 \<rparr>"

definition windows :: env where
  "windows = \<lparr> isWindows = True, isIPv4 = dottedQuad, EAI_NODATA = - 3007, UNKNOWN = - 4094 \<rparr>"

text \<open>
  A resolver for address lookups: \<open>example.test\<close> has one A and one AAAA record,
  \<open>two.example.test\<close> has two A records and fails otherwise, \<open>localhost\<close> has both
  loopback addresses; every other name is not found.
\<close>

definition addressDns :: "string resolveDns" where
  "addressDns hostname recordType =
     (if hostname = ''example.test'' then
        (case recordType of
           RecA \<Rightarrow> Fulfilled [''93.184.216.34'']
         | RecAAAA \<Rightarrow> Fulfilled [''2606:2800:220:1::'']
         | _ \<Rightarrow> Rejected NotFound)
      else if hostname = ''two.example.test'' then
        (case recordType of
           RecA \<Rightarrow> Fulfilled [''192.0.2.1'', ''192.0.2.2'']
         | _ \<Rightarrow> Rejected OtherFailure)
      else if hostname = ''localhost'' then
        (case recordType of
           RecA \<Rightarrow> Fulfilled [''127.0.0.1'']
         | RecAAAA \<Rightarrow> Fulfilled [''::1'']
         | _ \<Rightarrow> Rejected NotFound)
      else Rejected NotFound)"

text \<open>A resolver for record queries: \<open>example.test\<close> has one MX and one SRV record.\<close>

definition recordDns :: "native resolveDns" where
  "recordDns name recordType =
     (if name = ''example.test'' then
        (case recordType of
           RecMX \<Rightarrow> Fulfilled [NMX 10 ''mail.example.test'']
         | RecSRV \<Rightarrow> Fulfilled [NSRV 1 5 5060 ''sip.example.test'']
         | RecA \<Rightarrow> Fulfilled [NStr ''93.184.216.34'']
         | RecTXT \<Rightarrow> Rejected OtherFailure
         | _ \<Rightarrow> Rejected NotFound)
      else Rejected NotFound)"

section \<open>Properties of the merge and of the sort\<close>

lemma push_all_append: "push_all addresses records = addresses @ records"
  unfolding push_all_def by (induction records arbitrary: addresses) simp_all

lemma settle_lookup_eq:
  "settle_lookup dns hostname (pending, addresses) recordType =
     (if recordType \<in> set pending
      then (removeAll recordType pending, addresses @ fulfilled (dns hostname recordType))
      else (pending, addresses))"
  by (cases "dns hostname recordType") (simp_all add: push_all_append)

lemma settle_lookup_pending:
  "fst (foldl (settle_lookup dns hostname) (pending, addresses) sched) =
     filter (\<lambda>t. t \<notin> set sched) pending"
proof (induction sched arbitrary: pending addresses)
  case Nil
  then show ?case by simp
next
  case (Cons t ts)
  show ?case
  proof (cases "t \<in> set pending")
    case True
    then show ?thesis
      using Cons.IH [of "removeAll t pending" "addresses @ fulfilled (dns hostname t)"]
      by (simp only: foldl_Cons settle_lookup_eq if_True)
         (auto simp: removeAll_filter_not_eq filter_filter intro: filter_cong)
  next
    case False
    then show ?thesis
      using Cons.IH [of pending addresses]
      by (simp only: foldl_Cons settle_lookup_eq if_False)
         (auto intro: filter_cong)
  qed
qed

lemma settle_lookup_ignored:
  "set pre \<inter> set pending = {} \<Longrightarrow>
   foldl (settle_lookup dns hostname) (pending, addresses) pre = (pending, addresses)"
  by (induction pre) (auto simp: settle_lookup_eq simp del: settle_lookup.simps)

lemma length_BinaryInsertionSort:
  "length (BinaryInsertionSort comparefn run rest) = length run + length rest"
  by (induction rest arbitrary: run) (simp_all add: Let_def)

lemma length_CountAndMakeRun:
  "length (snd (CountAndMakeRun comparefn workArray)) = length workArray"
  by (induction comparefn workArray rule: CountAndMakeRun.induct) (auto simp: Let_def)

lemma length_array_sort: "length (array_sort comparefn workArray) = length workArray"
proof (cases "CountAndMakeRun comparefn workArray")
  case (Pair runLength madeRun)
  then have "length madeRun = length workArray"
    using length_CountAndMakeRun [of comparefn workArray] by simp
  then show ?thesis
    by (auto simp: array_sort_def Pair length_BinaryInsertionSort)
qed

lemma array_sort_Nil_iff: "array_sort comparefn workArray = [] \<longleftrightarrow> workArray = []"
  using length_array_sort [of comparefn workArray] by (metis length_0_conv)

lemma bsearch_all_less:
  "right \<le> length workArray \<Longrightarrow> \<forall>i<length workArray. comparefn pivot (workArray ! i) < 0 \<Longrightarrow>
   bsearch comparefn pivot workArray left right = left"
proof (induction comparefn pivot workArray left right rule: bsearch.induct)
  case (1 comparefn pivot workArray left right)
  show ?case
  proof (cases "left < right")
    case True
    let ?mid = "left + (right - left) div 2"
    from True 1 have m: "?mid < length workArray" by linarith
    then have lt: "comparefn pivot (workArray ! ?mid) < 0" using 1 by blast
    have "?mid \<le> length workArray" using m by simp
    then have "bsearch comparefn pivot workArray left ?mid = left"
      using "1.IH"(1) [OF True refl lt] 1(4) by blast
    then show ?thesis
      using True lt by (subst bsearch.simps) (simp add: Let_def)
  next
    case False
    then show ?thesis by (subst bsearch.simps) simp
  qed
qed

lemma bsearch_none_less:
  "left \<le> right \<Longrightarrow> right \<le> length workArray \<Longrightarrow>
   \<forall>i<length workArray. \<not> comparefn pivot (workArray ! i) < 0 \<Longrightarrow>
   bsearch comparefn pivot workArray left right = right"
proof (induction comparefn pivot workArray left right rule: bsearch.induct)
  case (1 comparefn pivot workArray left right)
  show ?case
  proof (cases "left < right")
    case True
    let ?mid = "left + (right - left) div 2"
    from True 1 have m: "?mid < length workArray" by linarith
    then have ge: "\<not> comparefn pivot (workArray ! ?mid) < 0" using 1 by blast
    have le: "?mid + 1 \<le> right" using True by linarith
    have "bsearch comparefn pivot workArray (?mid + 1) right = right"
      using "1.IH"(2) [OF True refl ge le] 1(4,5) by blast
    then show ?thesis
      using True ge by (subst bsearch.simps) (simp add: Let_def)
  next
    case False
    then show ?thesis using 1 by (subst bsearch.simps) simp
  qed
qed


lemma compareAddresses_less: "compareAddresses env a b < 0 \<longleftrightarrow> isIPv4 env a"
  by (simp add: compareAddresses_def)

lemma run_rest_descending:
  "run_rest (compareAddresses env) True previousElement rest =
     length (takeWhile (isIPv4 env) rest)"
  by (induction rest arbitrary: previousElement)
     (simp_all add: Let_def compareAddresses_less not_less [symmetric])

lemma run_rest_ascending:
  "run_rest (compareAddresses env) False previousElement rest =
     length (takeWhile (\<lambda>a. \<not> isIPv4 env a) rest)"
  by (induction rest arbitrary: previousElement)
     (simp_all add: Let_def compareAddresses_less)

lemma BinaryInsertionSort_addresses:
  "BinaryInsertionSort (compareAddresses env) run rest =
     rev (filter (isIPv4 env) rest) @ run @ filter (\<lambda>a. \<not> isIPv4 env a) rest"
proof (induction rest arbitrary: run)
  case Nil
  show ?case by simp
next
  case (Cons pivot rest)
  show ?case
  proof (cases "isIPv4 env pivot")
    case True
    then have "bsearch (compareAddresses env) pivot run 0 (length run) = 0"
      by (intro bsearch_all_less) (simp_all add: compareAddresses_less)
    then show ?thesis using True Cons.IH [of "pivot # run"] by simp
  next
    case False
    then have "bsearch (compareAddresses env) pivot run 0 (length run) = length run"
      by (intro bsearch_none_less) (simp_all add: compareAddresses_less)
    then show ?thesis using False Cons.IH [of "run @ [pivot]"] by simp
  qed
qed

lemma filter_takeWhile_dropWhile:
  "filter P xs = takeWhile P xs @ filter P (dropWhile P xs)"
  by (induction xs) simp_all

lemma filter_not_dropWhile:
  "filter (\<lambda>a. \<not> P a) (dropWhile P xs) = filter (\<lambda>a. \<not> P a) xs"
  by (induction xs) simp_all

text \<open>
  What the sort makes of the comparator of \<open>getaddrinfo\<close>: an IPv4 pivot compares smaller
  than every element, so the binary search puts it in front; any other pivot goes to the
  end. The IPv4 addresses come out first, in reverse, the others after them in their
  input order.
\<close>

lemma array_sort_addresses:
  "array_sort (compareAddresses env) addresses =
     rev (filter (isIPv4 env) addresses) @ filter (\<lambda>a. \<not> isIPv4 env a) addresses"
proof (cases "(compareAddresses env, addresses)" rule: CountAndMakeRun.cases)
  case (1 comparefn)
  then show ?thesis by (simp add: array_sort_def)
next
  case (2 comparefn x)
  then show ?thesis by (simp add: array_sort_def)
next
  case (3 comparefn elementHigh elementLow rest)
  then have a: "addresses = elementHigh # elementLow # rest" by simp
  let ?v = "isIPv4 env"
  show ?thesis
  proof (cases "?v elementLow")
    case True
    let ?n = "length (takeWhile ?v rest)"
    have tk: "take ?n rest = takeWhile ?v rest" by (simp add: takeWhile_eq_take [symmetric])
    have dr: "drop ?n rest = dropWhile ?v rest" by (simp add: dropWhile_eq_drop [symmetric])
    have "array_sort (compareAddresses env) addresses =
            BinaryInsertionSort (compareAddresses env)
              (rev (elementHigh # elementLow # takeWhile ?v rest)) (dropWhile ?v rest)"
      using True by (simp add: array_sort_def a compareAddresses_less run_rest_descending tk dr)
    also have "\<dots> = rev (filter ?v (dropWhile ?v rest)) @ rev (takeWhile ?v rest) @
                     [elementLow, elementHigh] @ filter (\<lambda>a. \<not> ?v a) rest"
      by (simp add: BinaryInsertionSort_addresses filter_not_dropWhile)
    also have "\<dots> = rev (filter ?v addresses) @ filter (\<lambda>a. \<not> ?v a) addresses"
      using True filter_takeWhile_dropWhile [of ?v rest] by (simp add: a)
    finally show ?thesis .
  next
    case False
    let ?w = "\<lambda>a. \<not> isIPv4 env a"
    let ?n = "length (takeWhile ?w rest)"
    have tk: "take ?n rest = takeWhile ?w rest" by (simp add: takeWhile_eq_take [symmetric])
    have dr: "drop ?n rest = dropWhile ?w rest" by (simp add: dropWhile_eq_drop [symmetric])
    have "array_sort (compareAddresses env) addresses =
            BinaryInsertionSort (compareAddresses env)
              (elementHigh # elementLow # takeWhile ?w rest) (dropWhile ?w rest)"
      using False by (simp add: array_sort_def a compareAddresses_less run_rest_ascending tk dr)
    also have "\<dots> = rev (filter ?v rest) @ [elementHigh, elementLow] @
                     takeWhile ?w rest @ filter ?w (dropWhile ?w rest)"
      using filter_not_dropWhile [of ?w rest]
      by (simp add: BinaryInsertionSort_addresses)
    also have "\<dots> = rev (filter ?v addresses) @ filter ?w addresses"
      using False filter_takeWhile_dropWhile [of ?w rest] by (simp add: a)
    finally show ?thesis .
  qed
qed

lemma settle_query_eq:
  "settle_query env dns name (pending, records) recordType =
     (if recordType \<in> set pending
      then (removeAll recordType pending,
            records @ (case query env dns name recordType of
                         Fulfilled (code, ret) \<Rightarrow> map (anyRecord recordType) ret
                       | Rejected e \<Rightarrow> []))
      else (pending, records))"
  by (cases "query env dns name recordType") (auto simp: push_all_append)

lemma settle_query_pending:
  "fst (foldl (settle_query env dns name) (pending, records) sched) =
     filter (\<lambda>t. t \<notin> set sched) pending"
proof (induction sched arbitrary: pending records)
  case Nil
  then show ?case by simp
next
  case (Cons t ts)
  obtain p r where step: "settle_query env dns name (pending, records) t = (p, r)"
    by (cases "settle_query env dns name (pending, records) t")
  have p: "p = (if t \<in> set pending then removeAll t pending else pending)"
    using step by (simp only: settle_query_eq split: if_splits) auto
  have "fst (foldl (settle_query env dns name) (pending, records) (t # ts)) =
          filter (\<lambda>t. t \<notin> set ts) p"
    using Cons.IH [of p r] by (simp only: foldl_Cons step)
  also have "\<dots> = filter (\<lambda>x. x \<notin> set (t # ts)) pending"
    by (auto simp: p removeAll_filter_not_eq filter_filter intro: filter_cong)
  finally show ?case .
qed

lemma pending_empty_iff:
  "filter (\<lambda>t. t \<notin> set sched) pending = [] \<longleftrightarrow> set pending \<subseteq> set sched"
  by (auto simp: filter_empty_conv)

lemma getaddrinfo_oncomplete:
  "oncomplete (getaddrinfo env dns sched hostname family hints verbatim) =
     (if set (recordTypes family) \<subseteq> set sched
      then [complete env hostname verbatim (snd (allSettled dns sched hostname family))]
      else [])"
proof -
  obtain pending addresses where s: "allSettled dns sched hostname family = (pending, addresses)"
    by (cases "allSettled dns sched hostname family")
  have "pending = filter (\<lambda>t. t \<notin> set sched) (recordTypes family)"
    using settle_lookup_pending [of dns hostname "recordTypes family" "[]" sched] s
    by (simp add: allSettled_def)
  then have "pending = [] \<longleftrightarrow> set (recordTypes family) \<subseteq> set sched"
    by (simp only: pending_empty_iff)
  then show ?thesis by (simp add: getaddrinfo_def s)
qed

lemma queryAny_oncomplete:
  "oncomplete (queryAny env dns sched name) =
     (if set anyTypes \<subseteq> set sched
      then [(if snd (anySettled env dns sched name) \<noteq> [] then 0 else EAI_NODATA env,
             snd (anySettled env dns sched name))]
      else [])"
proof -
  obtain pending records where s: "anySettled env dns sched name = (pending, records)"
    by (cases "anySettled env dns sched name")
  have "pending = filter (\<lambda>t. t \<notin> set sched) anyTypes"
    using settle_query_pending [of env dns name anyTypes "[]" sched] s
    by (simp add: anySettled_def)
  then have "pending = [] \<longleftrightarrow> set anyTypes \<subseteq> set sched"
    by (simp only: pending_empty_iff)
  then show ?thesis by (simp add: queryAny_def s)
qed

lemma getaddrinfo_returned:
  "returned (getaddrinfo env dns sched hostname family hints verbatim) = Inr 0"
  by (simp add: getaddrinfo_def split: prod.split)

lemma getaddrinfo_dispatched:
  "dispatched (getaddrinfo env dns sched hostname family hints verbatim) = recordTypes family"
  by (simp add: getaddrinfo_def split: prod.split)

lemma queryAny_returned: "returned (queryAny env dns sched name) = Inr 0"
  by (simp add: queryAny_def split: prod.split)

lemma complete_fst:
  "fst (complete env hostname verbatim addresses) =
     (if addresses \<noteq> [] then 0 else EAI_NODATA env)"
  by (simp add: complete_def Let_def)

lemma complete_snd:
  "snd (complete env hostname verbatim addresses) =
     (let ordered = (if verbatim then addresses
                     else array_sort (compareAddresses env) addresses)
      in if isWindows env \<and> hostname = ''localhost'' then filter (isIPv4 env) ordered
         else ordered)"
  by (simp add: complete_def Let_def)

lemma settle_lookup_two:
  assumes "set pre \<inter> set [first, second] = {}" "second \<notin> set mid" "first \<noteq> second"
  shows "foldl (settle_lookup dns hostname) ([first, second], [])
           (pre @ first # mid @ second # post) =
         ([], fulfilled (dns hostname first) @ fulfilled (dns hostname second))"
proof -
  let ?f = "settle_lookup dns hostname"
  have 1: "foldl ?f ([first, second], []) pre = ([first, second], [])"
    using assms(1) by (rule settle_lookup_ignored)
  have 2: "?f ([first, second], []) first = ([second], fulfilled (dns hostname first))"
    using assms(3) by (simp add: settle_lookup_eq del: settle_lookup.simps)
  have 3: "foldl ?f ([second], fulfilled (dns hostname first)) mid =
             ([second], fulfilled (dns hostname first))"
    using assms(2) by (intro settle_lookup_ignored) simp
  have 4: "?f ([second], fulfilled (dns hostname first)) second =
             ([], fulfilled (dns hostname first) @ fulfilled (dns hostname second))"
    by (simp add: settle_lookup_eq del: settle_lookup.simps)
  have 5: "foldl ?f ([], fulfilled (dns hostname first) @ fulfilled (dns hostname second)) post =
             ([], fulfilled (dns hostname first) @ fulfilled (dns hostname second))"
    by (intro settle_lookup_ignored) simp
  show ?thesis
    by (simp only: foldl_append foldl_Cons 1 2 3 4 5)
qed

lemma then_oncomplete_settled:
  "recordType \<in> set sched \<Longrightarrow>
   then_oncomplete env dns sched name recordType shape =
     [(fst (case dns name recordType of
              Fulfilled records \<Rightarrow> (0, records)
            | Rejected e \<Rightarrow> (if e = NotFound then EAI_NODATA env else UNKNOWN env, [])),
       shape (fulfilled (dns name recordType)))]"
  by (cases "dns name recordType") (simp_all add: then_oncomplete_def query_def)

text \<open>
  What does hold of the error code of an aggregate lookup: it is computed from the merged
  sequence; a delivered address always comes with code 0; and outside Windows with
  \<open>localhost\<close> an empty delivered list comes with \<open>EAI_NODATA\<close>. \<open>queryAny\<close> delivers the
  merged sequence itself, so there the code always follows the delivered records.
\<close>

lemma error_code_of_merged:
  "((err, delivered) \<in> set (oncomplete (getaddrinfo env dns sched hostname family hints verbatim)) \<longrightarrow>
      err = (if snd (allSettled dns sched hostname family) \<noteq> [] then 0 else EAI_NODATA env) \<and>
      (delivered \<noteq> [] \<longrightarrow> err = 0) \<and>
      (\<not> (isWindows env \<and> hostname = ''localhost'') \<longrightarrow>
         err = (if delivered \<noteq> [] then 0 else EAI_NODATA env))) \<and>
   ((err', records) \<in> set (oncomplete (queryAny env dns' sched' name)) \<longrightarrow>
      records = snd (anySettled env dns' sched' name) \<and>
      err' = (if records \<noteq> [] then 0 else EAI_NODATA env))"
proof (intro conjI impI)
  assume m: "(err, delivered) \<in> set (oncomplete (getaddrinfo env dns sched hostname family hints verbatim))"
  let ?merged = "snd (allSettled dns sched hostname family)"
  let ?ordered = "if verbatim then ?merged else array_sort (compareAddresses env) ?merged"
  from m have c: "(err, delivered) = complete env hostname verbatim ?merged"
    by (simp add: getaddrinfo_oncomplete split: if_splits)
  from c have "err = fst (complete env hostname verbatim ?merged)" by (metis fst_conv)
  then show e: "err = (if ?merged \<noteq> [] then 0 else EAI_NODATA env)"
    by (simp only: complete_fst)
  from c have d: "delivered = snd (complete env hostname verbatim ?merged)" by (metis snd_conv)
  have o: "?ordered = [] \<longleftrightarrow> ?merged = []"
    by (simp add: array_sort_Nil_iff)
  {
    assume n: "delivered \<noteq> []"
    have "delivered = ?ordered \<or> delivered = filter (isIPv4 env) ?ordered"
      unfolding d complete_snd Let_def by (cases verbatim) simp_all
    with n have "?ordered \<noteq> []" by auto
    with o have "?merged \<noteq> []" by simp
    then show "err = 0" using e by simp
  }
  assume w: "\<not> (isWindows env \<and> hostname = ''localhost'')"
  from d have "delivered = ?ordered"
    using w by (simp only: complete_snd Let_def if_False)
  then have "delivered = [] \<longleftrightarrow> ?merged = []"
    using o by simp
  then show "err = (if delivered \<noteq> [] then 0 else EAI_NODATA env)"
    using e by simp
next
  assume m: "(err', records) \<in> set (oncomplete (queryAny env dns' sched' name))"
  then show "records = snd (anySettled env dns' sched' name)"
    by (simp add: queryAny_oncomplete split: if_splits)
  from m show "err' = (if records \<noteq> [] then 0 else EAI_NODATA env)"
    by (simp add: queryAny_oncomplete split: if_splits)
qed

text \<open>Lookups that all fail, or find nothing, leave the merged sequence empty.\<close>

lemma settle_lookup_nothing:
  "\<forall>t \<in> set pending. fulfilled (dns hostname t) = [] \<Longrightarrow>
   snd (foldl (settle_lookup dns hostname) (pending, addresses) sched) = addresses"
proof (induction sched arbitrary: pending)
  case Nil
  show ?case by simp
next
  case (Cons t ts)
  show ?case
  proof (cases "t \<in> set pending")
    case True
    have "\<forall>u \<in> set (removeAll t pending). fulfilled (dns hostname u) = []"
      using Cons.prems by simp
    from Cons.IH [OF this] show ?thesis
      using True Cons.prems by (simp only: foldl_Cons settle_lookup_eq if_True) simp
  next
    case False
    from Cons.IH [OF Cons.prems] show ?thesis
      using False by (simp only: foldl_Cons settle_lookup_eq if_False)
  qed
qed

lemma settle_query_nothing:
  "\<forall>t \<in> set pending. fulfilled (dns name t) = [] \<Longrightarrow>
   snd (foldl (settle_query env dns name) (pending, records) sched) = records"
proof (induction sched arbitrary: pending)
  case Nil
  show ?case by simp
next
  case (Cons t ts)
  show ?case
  proof (cases "t \<in> set pending")
    case True
    then have f: "fulfilled (dns name t) = []" using Cons.prems by simp
    have q: "(case query env dns name t of
                Fulfilled (code, ret) \<Rightarrow> map (anyRecord t) ret
              | Rejected e \<Rightarrow> []) = []"
      using f by (cases "dns name t") (simp_all add: query_def)
    have "\<forall>u \<in> set (removeAll t pending). fulfilled (dns name u) = []"
      using Cons.prems by simp
    from Cons.IH [OF this] show ?thesis
      using True by (simp only: foldl_Cons settle_query_eq if_True q) simp
  next
    case False
    from Cons.IH [OF Cons.prems] show ?thesis
      using False by (simp only: foldl_Cons settle_query_eq if_False)
  qed
qed

section \<open>The claims\<close>

text \<open>
  Claim C1. Line 88 sets the error to \<open>EAI_NODATA\<close> when there is no address, but it runs
  before the filter of lines 107 to 109. On Windows a \<open>localhost\<close> whose only address is
  the IPv6 loopback address loses that address to the filter after the error has been
  computed: \<open>oncomplete\<close> receives code 0 with an empty list, with and without
  \<open>verbatim\<close>, although \<open>EAI_NODATA\<close> is not 0.
\<close>

theorem C1_empty_delivered_with_code_0:
  "addressDns ''localhost'' RecAAAA = Fulfilled [''::1''] \<and>
   oncomplete (getaddrinfo windows addressDns [RecAAAA] ''localhost'' 6 0 False) = [(0, [])] \<and>
   oncomplete (getaddrinfo windows addressDns [RecAAAA] ''localhost'' 6 0 True) = [(0, [])] \<and>
   EAI_NODATA windows \<noteq> 0"
  by code_simp

text \<open>
  Claim C2. \<open>getaddrinfo\<close> and \<open>queryAny\<close> return 0 whatever the resolver does. The
  request's \<open>oncomplete\<close> is never called twice, under any schedule, and it is called
  exactly once as soon as every dispatched lookup has settled, whether fulfilled or
  rejected.
\<close>

theorem C2_completes_exactly_once:
  "returned (getaddrinfo env dns sched hostname family hints verbatim) = Inr 0 \<and>
   length (oncomplete (getaddrinfo env dns sched hostname family hints verbatim)) \<le> 1 \<and>
   (set (recordTypes family) \<subseteq> set sched \<longrightarrow>
      length (oncomplete (getaddrinfo env dns sched hostname family hints verbatim)) = 1) \<and>
   returned (queryAny env dns' sched' name) = Inr 0 \<and>
   length (oncomplete (queryAny env dns' sched' name)) \<le> 1 \<and>
   (set anyTypes \<subseteq> set sched' \<longrightarrow>
      length (oncomplete (queryAny env dns' sched' name)) = 1)"
  by (simp add: getaddrinfo_returned queryAny_returned getaddrinfo_oncomplete
        queryAny_oncomplete)

theorem C2_completes_exactly_once_witness:
  "returned (getaddrinfo linux addressDns [RecAAAA, RecA] ''example.test'' 0 0 False) = Inr 0 \<and>
   length (oncomplete (getaddrinfo linux addressDns [RecAAAA, RecA] ''example.test'' 0 0 False)) = 1 \<and>
   returned (queryAny linux recordDns [RecTXT, RecSRV, RecPTR, RecMX, RecCNAME, RecAAAA, RecA]
     ''example.test'') = Inr 0 \<and>
   length (oncomplete (queryAny linux recordDns
     [RecTXT, RecSRV, RecPTR, RecMX, RecCNAME, RecAAAA, RecA] ''example.test'')) = 1"
  using C2_completes_exactly_once [of linux addressDns "[RecAAAA, RecA]" "''example.test''" 0 0
      False recordDns "[RecTXT, RecSRV, RecPTR, RecMX, RecCNAME, RecAAAA, RecA]" "''example.test''"]
  by (simp add: recordTypes_def anyTypes_def)

text \<open>
  Claim C3. The comparator returns -1 whenever its first argument is an IPv4 literal, also
  when the second is one too, so two IPv4 addresses are each reported smaller than the
  other. On such a comparator the sort does not keep the input order: by
  \<open>array_sort_addresses\<close> the IPv4 addresses come first but in reverse, followed by the
  others in their input order. Here the two A records of the resolver are delivered
  swapped.
\<close>

theorem C3_ipv4_order_reversed:
  "addressDns ''two.example.test'' RecA = Fulfilled [''192.0.2.1'', ''192.0.2.2''] \<and>
   oncomplete (getaddrinfo linux addressDns [RecA] ''two.example.test'' 4 0 False) =
     [(0, [''192.0.2.2'', ''192.0.2.1''])]"
  by code_simp




text \<open>
  Claim C5. Family 0 selects A and AAAA, family 4 selects A, family 6 selects AAAA. One
  lookup is dispatched per selected type, and \<open>oncomplete\<close> is called if and only if every
  dispatched lookup has settled: whatever the lookups settled with, a schedule that
  leaves one of them pending yields no completion.
\<close>

theorem C5_record_types_and_join:
  "recordTypes 0 = [RecA, RecAAAA] \<and> recordTypes 4 = [RecA] \<and> recordTypes 6 = [RecAAAA] \<and>
   dispatched (getaddrinfo env dns sched hostname family hints verbatim) = recordTypes family \<and>
   distinct (recordTypes family) \<and>
   (oncomplete (getaddrinfo env dns sched hostname family hints verbatim) \<noteq> [] \<longleftrightarrow>
      set (recordTypes family) \<subseteq> set sched)"
  by (simp add: getaddrinfo_dispatched getaddrinfo_oncomplete) (simp add: recordTypes_def)

theorem C5_record_types_and_join_witness:
  "dispatched (getaddrinfo linux addressDns [RecA] ''example.test'' 0 0 False) = [RecA, RecAAAA] \<and>
   oncomplete (getaddrinfo linux addressDns [RecA] ''example.test'' 0 0 False) = [] \<and>
   oncomplete (getaddrinfo linux addressDns [RecA] ''nowhere.invalid'' 0 0 False) = [] \<and>
   oncomplete (getaddrinfo linux addressDns [RecA, RecAAAA] ''nowhere.invalid'' 0 0 False) \<noteq> []"
  using C5_record_types_and_join [of linux addressDns "[RecA]" "''example.test''" 0 0 False]
    C5_record_types_and_join [of linux addressDns "[RecA]" "''nowhere.invalid''" 0 0 False]
    C5_record_types_and_join [of linux addressDns "[RecA, RecAAAA]" "''nowhere.invalid''" 0 0 False]
  by simp

text \<open>
  Claim C6, amended. With family 0 the merged sequence holds the results in the order in
  which the two lookups settle: the A addresses before the AAAA addresses when the A
  lookup settles first, the AAAA addresses before the A addresses when the AAAA lookup
  settles first; within a record type the order is the resolver's. Events for other
  record types, and repeated events, change nothing.
\<close>

theorem C6_merged_in_settlement_order:
  "(RecA \<notin> set pre \<and> RecAAAA \<notin> set pre \<and> RecAAAA \<notin> set mid \<longrightarrow>
      snd (allSettled dns (pre @ RecA # mid @ RecAAAA # post) hostname 0) =
        fulfilled (dns hostname RecA) @ fulfilled (dns hostname RecAAAA)) \<and>
   (RecA \<notin> set pre \<and> RecAAAA \<notin> set pre \<and> RecA \<notin> set mid \<longrightarrow>
      snd (allSettled dns (pre @ RecAAAA # mid @ RecA # post) hostname 0) =
        fulfilled (dns hostname RecAAAA) @ fulfilled (dns hostname RecA))"
proof (intro conjI impI)
  assume a: "RecA \<notin> set pre \<and> RecAAAA \<notin> set pre \<and> RecAAAA \<notin> set mid"
  have "foldl (settle_lookup dns hostname) ([RecA, RecAAAA], [])
          (pre @ RecA # mid @ RecAAAA # post) =
        ([], fulfilled (dns hostname RecA) @ fulfilled (dns hostname RecAAAA))"
    using a by (intro settle_lookup_two) auto
  then show "snd (allSettled dns (pre @ RecA # mid @ RecAAAA # post) hostname 0) =
        fulfilled (dns hostname RecA) @ fulfilled (dns hostname RecAAAA)"
    by (simp add: allSettled_def recordTypes_def)
next
  assume a: "RecA \<notin> set pre \<and> RecAAAA \<notin> set pre \<and> RecA \<notin> set mid"
  have s: "foldl (settle_lookup dns hostname) ([RecA, RecAAAA], []) pre = ([RecA, RecAAAA], [])"
    using a by (intro settle_lookup_ignored) auto
  have 2: "settle_lookup dns hostname ([RecA, RecAAAA], []) RecAAAA =
             ([RecA], fulfilled (dns hostname RecAAAA))"
    by (simp add: settle_lookup_eq del: settle_lookup.simps)
  have 3: "foldl (settle_lookup dns hostname) ([RecA], fulfilled (dns hostname RecAAAA)) mid =
             ([RecA], fulfilled (dns hostname RecAAAA))"
    using a by (intro settle_lookup_ignored) simp
  have 4: "settle_lookup dns hostname ([RecA], fulfilled (dns hostname RecAAAA)) RecA =
             ([], fulfilled (dns hostname RecAAAA) @ fulfilled (dns hostname RecA))"
    by (simp add: settle_lookup_eq del: settle_lookup.simps)
  have 5: "foldl (settle_lookup dns hostname)
             ([], fulfilled (dns hostname RecAAAA) @ fulfilled (dns hostname RecA)) post =
             ([], fulfilled (dns hostname RecAAAA) @ fulfilled (dns hostname RecA))"
    by (intro settle_lookup_ignored) simp
  have "foldl (settle_lookup dns hostname) ([RecA, RecAAAA], [])
          (pre @ RecAAAA # mid @ RecA # post) =
        ([], fulfilled (dns hostname RecAAAA) @ fulfilled (dns hostname RecA))"
    by (simp only: foldl_append foldl_Cons s 2 3 4 5)
  then show "snd (allSettled dns (pre @ RecAAAA # mid @ RecA # post) hostname 0) =
        fulfilled (dns hostname RecAAAA) @ fulfilled (dns hostname RecA)"
    by (simp add: allSettled_def recordTypes_def)
qed

theorem C6_merged_in_settlement_order_witness:
  "snd (allSettled addressDns [RecA, RecAAAA] ''example.test'' 0) =
     [''93.184.216.34'', ''2606:2800:220:1::''] \<and>
   snd (allSettled addressDns [RecAAAA, RecMX, RecA] ''example.test'' 0) =
     [''2606:2800:220:1::'', ''93.184.216.34'']"
  using C6_merged_in_settlement_order [of "[]" "[]" addressDns "[]" "''example.test''"]
    C6_merged_in_settlement_order [of "[]" "[RecMX]" addressDns "[]" "''example.test''"]
  by (simp add: addressDns_def)

text \<open>
  The claim as stated fails when the AAAA lookup settles first: its \<open>then\<close> callback
  pushes onto the shared \<open>addresses\<close> before the callback of the A lookup does, and with
  \<open>verbatim\<close> nothing reorders them.
\<close>

theorem C6_counterexample:
  "addressDns ''example.test'' RecA = Fulfilled [''93.184.216.34''] \<and>
   addressDns ''example.test'' RecAAAA = Fulfilled [''2606:2800:220:1::''] \<and>
   oncomplete (getaddrinfo linux addressDns [RecAAAA, RecA] ''example.test'' 0 0 True) =
     [(0, [''2606:2800:220:1::'', ''93.184.216.34''])]"
  by code_simp

text \<open>
  Claim C7. The promise of \<open>#query\<close> is always fulfilled, never rejected: with code 0 and
  the resolver's records on success, with \<open>EAI_NODATA\<close> and no records when the resolver
  failed with \<open>NotFound\<close>, with \<open>UNKNOWN\<close> and no records on any other failure.
\<close>

theorem C7_query_always_resolves:
  "query env dns name recordType =
     Fulfilled (case dns name recordType of
                  Fulfilled records \<Rightarrow> (0, records)
                | Rejected NotFound \<Rightarrow> (EAI_NODATA env, [])
                | Rejected OtherFailure \<Rightarrow> (UNKNOWN env, []))"
  by (simp add: query_def split: settled.split failure.split)

theorem C7_query_always_resolves_witness:
  "query linux recordDns ''example.test'' RecMX = Fulfilled (0, [NMX 10 ''mail.example.test'']) \<and>
   query linux recordDns ''example.test'' RecPTR = Fulfilled (- 3007, []) \<and>
   query linux recordDns ''example.test'' RecTXT = Fulfilled (- 4094, [])"
  using C7_query_always_resolves [of linux recordDns "''example.test''" RecMX]
    C7_query_always_resolves [of linux recordDns "''example.test''" RecPTR]
    C7_query_always_resolves [of linux recordDns "''example.test''" RecTXT]
  by (simp add: recordDns_def linux_def)

text \<open>
  Claim C8. \<open>queryCaa\<close>, \<open>queryNs\<close>, \<open>queryNaptr\<close>, \<open>querySoa\<close> and \<open>getHostByAddr\<close> throw
  at once: nothing is returned, no lookup is dispatched, \<open>oncomplete\<close> is never called.
  Every supported operation returns 0 whatever the resolver does, and a lookup that fails
  later reaches the caller only as the error code of the completion: a single-type query
  completes with \<open>EAI_NODATA\<close> or \<open>UNKNOWN\<close> and no records; \<open>queryAny\<close> and \<open>getaddrinfo\<close>
  complete once all their lookups have settled, with code 0 when some lookup brought a
  record and with \<open>EAI_NODATA\<close> and nothing else when every lookup failed.
\<close>

theorem C8_unsupported_raise_at_once:
  "(isl (returned (queryCaa env dns sched name)) \<and>
    dispatched (queryCaa env dns sched name) = [] \<and>
    oncomplete (queryCaa env dns sched name) = []) \<and>
   (isl (returned (queryNs env dns sched name)) \<and>
    dispatched (queryNs env dns sched name) = [] \<and>
    oncomplete (queryNs env dns sched name) = []) \<and>
   (isl (returned (queryNaptr env dns sched name)) \<and>
    dispatched (queryNaptr env dns sched name) = [] \<and>
    oncomplete (queryNaptr env dns sched name) = []) \<and>
   (isl (returned (querySoa env dns sched name)) \<and>
    dispatched (querySoa env dns sched name) = [] \<and>
    oncomplete (querySoa env dns sched name) = []) \<and>
   (isl (returned (getHostByAddr env dns sched name)) \<and>
    dispatched (getHostByAddr env dns sched name) = [] \<and>
    oncomplete (getHostByAddr env dns sched name) = []) \<and>
   returned (queryAny env dns sched name) = Inr 0 \<and>
   returned (queryA env dns sched name) = Inr 0 \<and>
   returned (queryAaaa env dns sched name) = Inr 0 \<and>
   returned (queryCname env dns sched name) = Inr 0 \<and>
   returned (queryMx env dns sched name) = Inr 0 \<and>
   returned (queryTxt env dns sched name) = Inr 0 \<and>
   returned (querySrv env dns sched name) = Inr 0 \<and>
   returned (queryPtr env dns sched name) = Inr 0 \<and>
   returned (getaddrinfo env dns' sched name family hints verbatim) = Inr 0 \<and>
   (dns name RecA = Rejected e \<and> RecA \<in> set sched \<longrightarrow>
      oncomplete (queryA env dns sched name) =
        [(if e = NotFound then EAI_NODATA env else UNKNOWN env, [])]) \<and>
   (dns name RecAAAA = Rejected e \<and> RecAAAA \<in> set sched \<longrightarrow>
      oncomplete (queryAaaa env dns sched name) =
        [(if e = NotFound then EAI_NODATA env else UNKNOWN env, [])]) \<and>
   (dns name RecCNAME = Rejected e \<and> RecCNAME \<in> set sched \<longrightarrow>
      oncomplete (queryCname env dns sched name) =
        [(if e = NotFound then EAI_NODATA env else UNKNOWN env, [])]) \<and>
   (dns name RecMX = Rejected e \<and> RecMX \<in> set sched \<longrightarrow>
      oncomplete (queryMx env dns sched name) =
        [(if e = NotFound then EAI_NODATA env else UNKNOWN env, [])]) \<and>
   (dns name RecTXT = Rejected e \<and> RecTXT \<in> set sched \<longrightarrow>
      oncomplete (queryTxt env dns sched name) =
        [(if e = NotFound then EAI_NODATA env else UNKNOWN env, [])]) \<and>
   (dns name RecSRV = Rejected e \<and> RecSRV \<in> set sched \<longrightarrow>
      oncomplete (querySrv env dns sched name) =
        [(if e = NotFound then EAI_NODATA env else UNKNOWN env, [])]) \<and>
   (dns name RecPTR = Rejected e \<and> RecPTR \<in> set sched \<longrightarrow>
      oncomplete (queryPtr env dns sched name) =
        [(if e = NotFound then EAI_NODATA env else UNKNOWN env, [])]) \<and>
   (set anyTypes \<subseteq> set sched \<longrightarrow>
      oncomplete (queryAny env dns sched name) =
        [(if snd (anySettled env dns sched name) \<noteq> [] then 0 else EAI_NODATA env,
          snd (anySettled env dns sched name))]) \<and>
   ((\<forall>t \<in> set anyTypes. \<exists>failed. dns name t = Rejected failed) \<and>
    set anyTypes \<subseteq> set sched \<longrightarrow>
      oncomplete (queryAny env dns sched name) = [(EAI_NODATA env, [])]) \<and>
   ((\<forall>t \<in> set (recordTypes family). \<exists>failed. dns' name t = Rejected failed) \<and>
    set (recordTypes family) \<subseteq> set sched \<longrightarrow>
      oncomplete (getaddrinfo env dns' sched name family hints verbatim) =
        [(EAI_NODATA env, [])])"
proof -
  have unsupported_and_single:
    "(isl (returned (queryCaa env dns sched name)) \<and>
        dispatched (queryCaa env dns sched name) = [] \<and>
        oncomplete (queryCaa env dns sched name) = []) \<and>
       (isl (returned (queryNs env dns sched name)) \<and>
        dispatched (queryNs env dns sched name) = [] \<and>
        oncomplete (queryNs env dns sched name) = []) \<and>
       (isl (returned (queryNaptr env dns sched name)) \<and>
        dispatched (queryNaptr env dns sched name) = [] \<and>
        oncomplete (queryNaptr env dns sched name) = []) \<and>
       (isl (returned (querySoa env dns sched name)) \<and>
        dispatched (querySoa env dns sched name) = [] \<and>
        oncomplete (querySoa env dns sched name) = []) \<and>
       (isl (returned (getHostByAddr env dns sched name)) \<and>
        dispatched (getHostByAddr env dns sched name) = [] \<and>
        oncomplete (getHostByAddr env dns sched name) = []) \<and>
       returned (queryAny env dns sched name) = Inr 0 \<and>
       returned (queryA env dns sched name) = Inr 0 \<and>
       returned (queryAaaa env dns sched name) = Inr 0 \<and>
       returned (queryCname env dns sched name) = Inr 0 \<and>
       returned (queryMx env dns sched name) = Inr 0 \<and>
       returned (queryTxt env dns sched name) = Inr 0 \<and>
       returned (querySrv env dns sched name) = Inr 0 \<and>
       returned (queryPtr env dns sched name) = Inr 0 \<and>
       returned (getaddrinfo env dns' sched name family hints verbatim) = Inr 0 \<and>
       (dns name RecA = Rejected e \<and> RecA \<in> set sched \<longrightarrow>
          oncomplete (queryA env dns sched name) =
            [(if e = NotFound then EAI_NODATA env else UNKNOWN env, [])]) \<and>
       (dns name RecAAAA = Rejected e \<and> RecAAAA \<in> set sched \<longrightarrow>
          oncomplete (queryAaaa env dns sched name) =
            [(if e = NotFound then EAI_NODATA env else UNKNOWN env, [])]) \<and>
       (dns name RecCNAME = Rejected e \<and> RecCNAME \<in> set sched \<longrightarrow>
          oncomplete (queryCname env dns sched name) =
            [(if e = NotFound then EAI_NODATA env else UNKNOWN env, [])]) \<and>
       (dns name RecMX = Rejected e \<and> RecMX \<in> set sched \<longrightarrow>
          oncomplete (queryMx env dns sched name) =
            [(if e = NotFound then EAI_NODATA env else UNKNOWN env, [])]) \<and>
       (dns name RecTXT = Rejected e \<and> RecTXT \<in> set sched \<longrightarrow>
          oncomplete (queryTxt env dns sched name) =
            [(if e = NotFound then EAI_NODATA env else UNKNOWN env, [])]) \<and>
       (dns name RecSRV = Rejected e \<and> RecSRV \<in> set sched \<longrightarrow>
          oncomplete (querySrv env dns sched name) =
            [(if e = NotFound then EAI_NODATA env else UNKNOWN env, [])]) \<and>
       (dns name RecPTR = Rejected e \<and> RecPTR \<in> set sched \<longrightarrow>
          oncomplete (queryPtr env dns sched name) =
            [(if e = NotFound then EAI_NODATA env else UNKNOWN env, [])])"
    by (simp add: queryCaa_def queryNs_def queryNaptr_def querySoa_def getHostByAddr_def
          notImplemented_def queryA_def queryAaaa_def queryCname_def queryMx_def queryTxt_def
          querySrv_def queryPtr_def queryAny_returned getaddrinfo_returned
          then_oncomplete_settled)
  have any: "set anyTypes \<subseteq> set sched \<longrightarrow>
      oncomplete (queryAny env dns sched name) =
        [(if snd (anySettled env dns sched name) \<noteq> [] then 0 else EAI_NODATA env,
          snd (anySettled env dns sched name))]"
    by (simp add: queryAny_oncomplete)
  have any_failed: "(\<forall>t \<in> set anyTypes. \<exists>failed. dns name t = Rejected failed) \<and>
      set anyTypes \<subseteq> set sched \<longrightarrow>
      oncomplete (queryAny env dns sched name) = [(EAI_NODATA env, [])]"
  proof
    assume a: "(\<forall>t \<in> set anyTypes. \<exists>failed. dns name t = Rejected failed) \<and>
      set anyTypes \<subseteq> set sched"
    then have "\<forall>t \<in> set anyTypes. fulfilled (dns name t) = []" by fastforce
    then have "snd (anySettled env dns sched name) = []"
      unfolding anySettled_def by (rule settle_query_nothing)
    then show "oncomplete (queryAny env dns sched name) = [(EAI_NODATA env, [])]"
      using a by (simp add: queryAny_oncomplete)
  qed
  have gai_failed:
    "(\<forall>t \<in> set (recordTypes family). \<exists>failed. dns' name t = Rejected failed) \<and>
      set (recordTypes family) \<subseteq> set sched \<longrightarrow>
      oncomplete (getaddrinfo env dns' sched name family hints verbatim) =
        [(EAI_NODATA env, [])]"
  proof
    assume a: "(\<forall>t \<in> set (recordTypes family). \<exists>failed. dns' name t = Rejected failed) \<and>
      set (recordTypes family) \<subseteq> set sched"
    then have "\<forall>t \<in> set (recordTypes family). fulfilled (dns' name t) = []" by fastforce
    then have "snd (allSettled dns' sched name family) = []"
      unfolding allSettled_def by (rule settle_lookup_nothing)
    then show "oncomplete (getaddrinfo env dns' sched name family hints verbatim) =
        [(EAI_NODATA env, [])]"
      using a by (simp add: getaddrinfo_oncomplete complete_def array_sort_def)
  qed
  show ?thesis
    using unsupported_and_single any any_failed gai_failed
    by (elim conjE) (intro conjI; assumption)
qed

theorem C8_unsupported_raise_at_once_witness:
  "returned (queryCaa linux recordDns [RecTXT] ''example.test'') =
     Inl (NotImplemented ''cares.ChannelWrap.prototype.queryCaa'') \<and>
   oncomplete (queryCaa linux recordDns [RecTXT] ''example.test'') = [] \<and>
   returned (queryTxt linux recordDns [RecTXT] ''example.test'') = Inr 0 \<and>
   oncomplete (queryTxt linux recordDns [RecTXT] ''example.test'') = [(- 4094, [])] \<and>
   oncomplete (queryAny linux recordDns
     [RecTXT, RecSRV, RecPTR, RecMX, RecCNAME, RecAAAA, RecA] ''nowhere.invalid'') =
     [(- 3007, [])] \<and>
   oncomplete (getaddrinfo linux addressDns
     [RecTXT, RecSRV, RecPTR, RecMX, RecCNAME, RecAAAA, RecA] ''nowhere.invalid'' 0 0 False) =
     [(- 3007, [])]"
proof -
  have r: "recordDns ''example.test'' RecTXT = Rejected OtherFailure \<and> RecTXT \<in> set [RecTXT]"
    by (simp add: recordDns_def)
  have c: "returned (queryCaa linux recordDns [RecTXT] ''example.test'') =
     Inl (NotImplemented ''cares.ChannelWrap.prototype.queryCaa'')"
    by (simp add: queryCaa_def notImplemented_def)
  have u: "UNKNOWN linux = - 4094" and n: "EAI_NODATA linux = - 3007"
    by (simp_all add: linux_def)
  note t = C8_unsupported_raise_at_once [of linux recordDns "[RecTXT]" "''example.test''"
      addressDns 0 0 False OtherFailure]
  from t r have o: "oncomplete (queryTxt linux recordDns [RecTXT] ''example.test'') =
      [(- 4094, [])]"
    by (simp add: u)
  from t have q: "oncomplete (queryCaa linux recordDns [RecTXT] ''example.test'') = [] \<and>
    returned (queryTxt linux recordDns [RecTXT] ''example.test'') = Inr 0"
    by blast
  have f: "(\<forall>t \<in> set anyTypes. \<exists>failed. recordDns ''nowhere.invalid'' t = Rejected failed) \<and>
      set anyTypes \<subseteq> set [RecTXT, RecSRV, RecPTR, RecMX, RecCNAME, RecAAAA, RecA]"
    by (simp add: recordDns_def anyTypes_def)
  have g: "(\<forall>t \<in> set (recordTypes 0). \<exists>failed. addressDns ''nowhere.invalid'' t = Rejected failed) \<and>
      set (recordTypes 0) \<subseteq> set [RecTXT, RecSRV, RecPTR, RecMX, RecCNAME, RecAAAA, RecA]"
    by (simp add: addressDns_def recordTypes_def)
  note t' = C8_unsupported_raise_at_once [of linux recordDns
      "[RecTXT, RecSRV, RecPTR, RecMX, RecCNAME, RecAAAA, RecA]" "''nowhere.invalid''"
      addressDns 0 0 False OtherFailure]
  from t' f have "oncomplete (queryAny linux recordDns
     [RecTXT, RecSRV, RecPTR, RecMX, RecCNAME, RecAAAA, RecA] ''nowhere.invalid'') =
     [(EAI_NODATA linux, [])]"
    by blast
  then have a: "oncomplete (queryAny linux recordDns
     [RecTXT, RecSRV, RecPTR, RecMX, RecCNAME, RecAAAA, RecA] ''nowhere.invalid'') =
     [(- 3007, [])]"
    by (simp only: n)
  from t' g have "oncomplete (getaddrinfo linux addressDns
     [RecTXT, RecSRV, RecPTR, RecMX, RecCNAME, RecAAAA, RecA] ''nowhere.invalid'' 0 0 False) =
     [(EAI_NODATA linux, [])]"
    by blast
  then have b: "oncomplete (getaddrinfo linux addressDns
     [RecTXT, RecSRV, RecPTR, RecMX, RecCNAME, RecAAAA, RecA] ''nowhere.invalid'' 0 0 False) =
     [(- 3007, [])]"
    by (simp only: n)
  show ?thesis using c o q a b by simp
qed

text \<open>
  Claim C9. \<open>queryMx\<close> hands each MX record over as \<open>{priority, exchange}\<close> with the
  priority equal to the record's preference; \<open>querySrv\<close> hands each SRV record over as
  \<open>{priority, weight, port, name}\<close> with the name equal to the record's target. Both pass
  on the code of \<open>#query\<close> unchanged.
\<close>

theorem C9_mx_srv_shapes:
  "mxRecord (NMX preference exchange) =
     Obj [(''priority'', Num preference), (''exchange'', Str exchange)] \<and>
   srvRecord (NSRV priority weight port target) =
     Obj [(''priority'', Num priority), (''weight'', Num weight), (''port'', Num port),
          (''name'', Str target)] \<and>
   (RecMX \<in> set sched \<and> query env dns name RecMX = Fulfilled (code, ret) \<longrightarrow>
      oncomplete (queryMx env dns sched name) = [(code, map mxRecord ret)]) \<and>
   (RecSRV \<in> set sched \<and> query env dns name RecSRV = Fulfilled (code', ret') \<longrightarrow>
      oncomplete (querySrv env dns sched name) = [(code', map srvRecord ret')])"
  by (simp add: mxRecord_def srvRecord_def field_def queryMx_def querySrv_def
        then_oncomplete_def)

theorem C9_mx_srv_shapes_witness:
  "oncomplete (queryMx linux recordDns [RecMX] ''example.test'') =
     [(0, [Obj [(''priority'', Num 10), (''exchange'', Str ''mail.example.test'')]])] \<and>
   oncomplete (querySrv linux recordDns [RecSRV] ''example.test'') =
     [(0, [Obj [(''priority'', Num 1), (''weight'', Num 5), (''port'', Num 5060),
                (''name'', Str ''sip.example.test'')]])] \<and>
   oncomplete (queryMx linux recordDns [RecMX] ''nowhere.invalid'') = [(- 3007, [])]"
proof -
  have q1: "query linux recordDns ''example.test'' RecMX =
              Fulfilled (0, [NMX 10 ''mail.example.test''])"
    and q2: "query linux recordDns ''example.test'' RecSRV =
              Fulfilled (0, [NSRV 1 5 5060 ''sip.example.test''])"
    and q3: "query linux recordDns ''nowhere.invalid'' RecMX = Fulfilled (- 3007, [])"
    by (simp_all add: query_def recordDns_def linux_def)
  note t1 = C9_mx_srv_shapes [of 10 "''mail.example.test''" 1 5 5060 "''sip.example.test''"
      "[RecMX]" linux recordDns "''example.test''" 0 "[NMX 10 ''mail.example.test'']" 0 "[]"]
  note t2 = C9_mx_srv_shapes [of 10 "''mail.example.test''" 1 5 5060 "''sip.example.test''"
      "[RecSRV]" linux recordDns "''example.test''" 0 "[]" 0 "[NSRV 1 5 5060 ''sip.example.test'']"]
  note t3 = C9_mx_srv_shapes [of 10 "''mail.example.test''" 1 5 5060 "''sip.example.test''"
      "[RecMX]" linux recordDns "''nowhere.invalid''" "- 3007" "[]" 0 "[]"]
  from t1 q1 have a: "oncomplete (queryMx linux recordDns [RecMX] ''example.test'') =
     [(0, [Obj [(''priority'', Num 10), (''exchange'', Str ''mail.example.test'')]])]"
    by simp
  from t2 q2 have b: "oncomplete (querySrv linux recordDns [RecSRV] ''example.test'') =
     [(0, [Obj [(''priority'', Num 1), (''weight'', Num 5), (''port'', Num 5060),
                (''name'', Str ''sip.example.test'')]])]"
    by simp
  from t3 q3 have c: "oncomplete (queryMx linux recordDns [RecMX] ''nowhere.invalid'') =
     [(- 3007, [])]"
    by simp
  show ?thesis using a b c by simp
qed

text \<open>
  Claim C10. For a family other than 0, 4 and 6 no record type is selected and no lookup
  is dispatched; the call returns 0 and \<open>oncomplete\<close> is called once, with \<open>EAI_NODATA\<close>
  and no addresses, under every schedule.
\<close>

theorem C10_other_family:
  "family \<noteq> 0 \<Longrightarrow> family \<noteq> 4 \<Longrightarrow> family \<noteq> 6 \<Longrightarrow>
   getaddrinfo env dns sched hostname family hints verbatim =
     \<lparr> returned = Inr 0, dispatched = [], oncomplete = [(EAI_NODATA env, [])] \<rparr>"
proof -
  assume f: "family \<noteq> 0" "family \<noteq> 4" "family \<noteq> 6"
  then have r: "recordTypes family = []" by (simp add: recordTypes_def)
  have "foldl (settle_lookup dns hostname) ([], []) sched = ([], [])"
    by (rule settle_lookup_ignored) simp
  then have "allSettled dns sched hostname family = ([], [])" by (simp add: allSettled_def r)
  then show ?thesis
    by (simp add: getaddrinfo_def r complete_def array_sort_def)
qed

theorem C10_other_family_witness:
  "getaddrinfo windows addressDns [RecA] ''localhost'' 5 1024 False =
     \<lparr> returned = Inr 0, dispatched = [], oncomplete = [(- 3007, [])] \<rparr>"
  using C10_other_family [of 5 windows addressDns "[RecA]" "''localhost''" 1024 False]
  by (simp add: windows_def)

end
